theory Spec2Isabelle
  imports Complex_Main "HOL-Library.AList"
begin

section \<open>JavaScript values\<close>

text \<open>
  The values the client code handles are JSON payloads, user objects and axios errors.
  A number is the exact rational value of a finite double (JSON has neither NaN nor
  infinities); an object is the list of its own enumerable properties in insertion
  order, each key once; a string is the list of its code units.
\<close>

datatype jv =
    JUndefined
  | JNull
  | JBool bool
  | JNum rat
  | JStr string
  | JArr "jv list"
  | JObj "(string \<times> jv) list"

datatype js_error = TypeError

text \<open>A computation that may throw: \<open>Inl\<close> is the exception.\<close>

type_synonym 'a js = "js_error + 'a"

definition andThen :: "'a js \<Rightarrow> ('a \<Rightarrow> 'b js) \<Rightarrow> 'b js" where
  "andThen m f = (case m of Inl e \<Rightarrow> Inl e | Inr v \<Rightarrow> f v)"

text \<open>ToBoolean: \<open>undefined\<close>, \<open>null\<close>, \<open>false\<close>, \<open>0\<close> and \<open>""\<close> are falsy.\<close>

fun truthy :: "jv \<Rightarrow> bool" where
  "truthy JUndefined = False"
| "truthy JNull = False"
| "truthy (JBool b) = b"
| "truthy (JNum n) = (n \<noteq> 0)"
| "truthy (JStr s) = (s \<noteq> [])"
| "truthy (JArr xs) = True"
| "truthy (JObj kvs) = True"

fun nullish :: "jv \<Rightarrow> bool" where
  "nullish JUndefined = True"
| "nullish JNull = True"
| "nullish v = False"

text \<open>Decimal form of an array index, as a property key.\<close>

function show_nat :: "nat \<Rightarrow> string" where
  "show_nat n =
     (if n < 10 then [char_of (48 + n)]
      else show_nat (n div 10) @ [char_of (48 + n mod 10)])"
  by pat_completeness auto
termination
  by (relation "measure id") auto

definition index_of_key :: "string \<Rightarrow> nat \<Rightarrow> nat option" where
  "index_of_key k n = find (\<lambda>i. show_nat i = k) [0..<n]"

text \<open>
  \<open>own v k\<close> is the value of \<open>v.k\<close> for a \<open>v\<close> that is neither \<open>null\<close> nor
  \<open>undefined\<close>: a property of an object, the length or an element of an array or a
  string, and \<open>undefined\<close> otherwise. Inherited methods are not values of this model;
  none of the keys the sources read (\<open>data\<close>, \<open>tasks\<close>, \<open>items\<close>, \<open>count\<close>,
  \<open>message\<close>, \<open>length\<close>, \<open>ratings\<close>, \<open>statistics\<close>, \<open>id\<close>, \<open>response\<close>,
  \<open>status\<close>, \<open>detail\<close>) names one.
\<close>

fun own :: "jv \<Rightarrow> string \<Rightarrow> jv" where
  "own (JObj kvs) k = (case map_of kvs k of Some v \<Rightarrow> v | None \<Rightarrow> JUndefined)"
| "own (JArr xs) k =
     (if k = ''length'' then JNum (of_nat (length xs))
      else case index_of_key k (length xs) of Some i \<Rightarrow> xs ! i | None \<Rightarrow> JUndefined)"
| "own (JStr s) k =
     (if k = ''length'' then JNum (of_nat (length s))
      else case index_of_key k (length s) of Some i \<Rightarrow> JStr [s ! i] | None \<Rightarrow> JUndefined)"
| "own v k = JUndefined"

text \<open>\<open>v.k\<close> throws a TypeError on \<open>null\<close> and \<open>undefined\<close>; \<open>v?.k\<close> yields
  \<open>undefined\<close> there.\<close>

definition member :: "jv \<Rightarrow> string \<Rightarrow> jv js" where
  "member v k = (if nullish v then Inl TypeError else Inr (own v k))"

definition opt_member :: "jv \<Rightarrow> string \<Rightarrow> jv" where
  "opt_member v k = (if nullish v then JUndefined else own v k)"

text \<open>\<open>a || b\<close> evaluates \<open>b\<close> only when \<open>a\<close> is falsy; \<open>c ? a : b\<close> evaluates one
  branch.\<close>

definition or_else :: "jv js \<Rightarrow> jv js \<Rightarrow> jv js" where
  "or_else a b = andThen a (\<lambda>v. if truthy v then Inr v else b)"

definition cond :: "jv js \<Rightarrow> jv js \<Rightarrow> jv js \<Rightarrow> jv js" where
  "cond c a b = andThen c (\<lambda>v. if truthy v then a else b)"

section \<open>Response transformers (services/api.js)\<close>

text \<open>\<open>response.data\<close> and \<open>response.data.k\<close>.\<close>

definition response_data :: "jv \<Rightarrow> jv js" where
  "response_data response = member response ''data''"

definition data_field :: "jv \<Rightarrow> string \<Rightarrow> jv js" where
  "data_field response k = andThen (response_data response) (\<lambda>d. member d k)"

definition transformTaskResponse :: "jv \<Rightarrow> jv js" where
  "transformTaskResponse response =
     andThen
       (or_else
          (or_else (data_field response ''tasks'') (data_field response ''items''))
          (andThen (response_data response) (\<lambda>d. Inr (JArr [d]))))
       (\<lambda>tasks.
     andThen
       (or_else
          (data_field response ''count'')
          (cond (data_field response ''tasks'')
             (andThen (data_field response ''tasks'') (\<lambda>t. member t ''length''))
             (Inr (JNum 1))))
       (\<lambda>count.
     andThen (data_field response ''message'')
       (\<lambda>message.
     Inr (JObj [(''tasks'', tasks), (''count'', count), (''message'', message)]))))"

definition default_statistics :: jv where
  "default_statistics = JObj [(''average_rating'', JNum 0), (''total_ratings'', JNum 0)]"

definition transformRatingResponse :: "jv \<Rightarrow> jv js" where
  "transformRatingResponse response =
     andThen
       (or_else
          (data_field response ''ratings'')
          (andThen (response_data response) (\<lambda>d. Inr (JArr [d]))))
       (\<lambda>ratings.
     andThen
       (or_else (data_field response ''statistics'') (Inr default_statistics))
       (\<lambda>statistics.
     Inr (JObj [(''ratings'', ratings), (''statistics'', statistics)])))"

section \<open>Identity store and API client (services/api.js)\<close>

datatype http_method = GET | POST | PUT | DELETE

record request_config =
  meth :: http_method
  url :: string
  data :: jv
  params :: jv
  headers :: "(string \<times> jv) list"

text \<open>
  The module state: the variable \<open>currentUser\<close>, the lines written with
  \<open>console.error\<close> (each the list of its arguments), and in \<open>sent\<close> the
  configurations of the requests as the request interceptor returned them, oldest
  first. These are what the client hands to its transport; what the transport makes of
  a header value on the way out is \<open>field_value\<close> below, and the headers it adds of
  its own (\<open>Accept\<close>) are left out.
\<close>

record api_state =
  currentUser :: jv
  console :: "jv list list"
  sent :: "request_config list"

definition initial_api :: api_state where
  "initial_api = \<lparr>currentUser = JNull, console = [], sent = []\<rparr>"

definition setCurrentUser :: "jv \<Rightarrow> api_state \<Rightarrow> api_state" where
  "setCurrentUser u st = st\<lparr>currentUser := u\<rparr>"

definition getCurrentUser :: "api_state \<Rightarrow> jv" where
  "getCurrentUser st = currentUser st"

definition set_header :: "string \<Rightarrow> jv \<Rightarrow> request_config \<Rightarrow> request_config" where
  "set_header k v config = config\<lparr>headers := AList.update k v (headers config)\<rparr>"

definition header :: "request_config \<Rightarrow> string \<Rightarrow> jv option" where
  "header config k = map_of (headers config) k"

text \<open>The request interceptor: \<open>currentUser?.id\<close> decides, \<open>currentUser.id\<close> is
  the value written.\<close>

definition request_interceptor :: "api_state \<Rightarrow> request_config \<Rightarrow> request_config js" where
  "request_interceptor st config =
     (if truthy (opt_member (currentUser st) ''id'')
      then andThen (member (currentUser st) ''id'')
             (\<lambda>v. Inr (set_header ''x-user-id'' v config))
      else Inr (set_header ''x-user-id'' (JStr ''test-user-123'') config))"

text \<open>The headers \<open>axios.create\<close> was given.\<close>

definition default_headers :: "(string \<times> jv) list" where
  "default_headers = [(''Content-Type'', JStr ''application/json'')]"

text \<open>
  One call of the client that \<open>axios.create\<close> returns (\<open>apiClient.get\<close>,
  \<open>post\<close>, \<open>put\<close>, \<open>delete\<close>): the configuration of the call, with the default
  headers, goes through the request interceptor and, unless that throws, to the
  transport. The base URL and the timeout of the client stay the same for every call
  and are left out of the configuration.
\<close>

definition apiClient_request ::
    "http_method \<Rightarrow> string \<Rightarrow> jv \<Rightarrow> jv \<Rightarrow> api_state \<Rightarrow> api_state" where
  "apiClient_request m u d p st =
     (case request_interceptor st
             \<lparr>meth = m, url = u, data = d, params = p, headers = default_headers\<rparr> of
        Inl e \<Rightarrow> st
      | Inr config \<Rightarrow> st\<lparr>sent := sent st @ [config]\<rparr>)"

text \<open>\<open>acceptTask\<close> calls \<open>apiClient.post\<close> with the route alone; the task id is a
  string, which the template literal inserts as it is. \<open>updateProfile\<close> calls
  \<open>apiClient.put\<close> with the payload as body.\<close>

definition acceptTask :: "string \<Rightarrow> api_state \<Rightarrow> api_state" where
  "acceptTask taskId = apiClient_request POST (''/tasks/'' @ taskId @ ''/accept'') JUndefined JUndefined"


text \<open>
  What the transport or an earlier handler settles a call with: a response, an error
  object, or an exception thrown inside a handler.
\<close>

datatype settled = Fulfilled jv | Rejected jv | Threw js_error

text \<open>The rejection handler of the response interceptor; reading \<open>error.response\<close>
  throws when the error is \<open>null\<close> or \<open>undefined\<close>.\<close>

definition response_rejected :: "jv \<Rightarrow> api_state \<Rightarrow> api_state \<times> settled" where
  "response_rejected err st =
     (case member err ''response'' of
        Inl e \<Rightarrow> (st, Threw e)
      | Inr r \<Rightarrow>
          (if opt_member r ''status'' = JNum 401
           then (st\<lparr>console := console st @ [[JStr ''Unauthorized access'']]\<rparr>, Rejected err)
           else (st, Rejected err)))"

text \<open>The response interceptor on a settled call. A thrown TypeError has no
  \<open>response\<close> property, so the rejection handler passes it on.\<close>

fun response_interceptor :: "settled \<Rightarrow> api_state \<Rightarrow> api_state \<times> settled" where
  "response_interceptor (Fulfilled response) st = (st, Fulfilled response)"
| "response_interceptor (Rejected err) st = response_rejected err st"
| "response_interceptor (Threw e) st = (st, Threw e)"

section \<open>Auth binding (contexts/AuthContext.jsx)\<close>

record auth_state =
  user :: jv
  loading :: bool

record app_state =
  auth :: auth_state
  client :: api_state

definition initial_app :: app_state where
  "initial_app = \<lparr>auth = \<lparr>user = JNull, loading = True\<rparr>, client = initial_api\<rparr>"

definition updateUser :: "jv \<Rightarrow> app_state \<Rightarrow> app_state" where
  "updateUser userData w =
     w\<lparr>auth := (auth w)\<lparr>user := userData\<rparr>, client := setCurrentUser userData (client w)\<rparr>"

definition testUser :: jv where
  "testUser = JObj [(''id'', JStr ''test-user-123''), (''full_name'', JStr ''Test User''),
     (''email'', JStr ''test@example.com'')]"

definition mount_effect :: "app_state \<Rightarrow> app_state" where
  "mount_effect w = (let w' = updateUser testUser w in w'\<lparr>auth := (auth w')\<lparr>loading := False\<rparr>\<rparr>)"

definition login :: "jv \<Rightarrow> app_state \<Rightarrow> app_state" where
  "login userData w = updateUser userData w"

definition logout :: "app_state \<Rightarrow> app_state" where
  "logout w = updateUser JNull w"

text \<open>What the provider offers: the mount effect, \<open>login\<close>, \<open>logout\<close>, and
  \<open>setUser\<close>, which is \<open>updateUser\<close>.\<close>

datatype auth_action = Mount | Login jv | Logout | SetUser jv

fun auth_step :: "app_state \<Rightarrow> auth_action \<Rightarrow> app_state" where
  "auth_step w Mount = mount_effect w"
| "auth_step w (Login u) = login u w"
| "auth_step w Logout = logout w"
| "auth_step w (SetUser u) = updateUser u w"

definition auth_run :: "auth_action list \<Rightarrow> app_state \<Rightarrow> app_state" where
  "auth_run acts w = foldl auth_step w acts"

section \<open>Error handler hook (hooks/useErrorHandler.js)\<close>

record handler_state =
  error :: jv
  handler_console :: "jv list list"

text \<open>\<open>handleError\<close> logs, then stores the message; the second component is the
  exception, if reading \<open>error.response\<close> threw.\<close>

definition handleError :: "jv \<Rightarrow> handler_state \<Rightarrow> handler_state \<times> js_error option" where
  "handleError err st =
     (let st1 = st\<lparr>handler_console := handler_console st @ [[JStr ''API Error:'', err]]\<rparr> in
      case or_else
             (andThen (member err ''response'')
                (\<lambda>r. Inr (opt_member (opt_member r ''data'') ''detail'')))
             (Inr (JStr ''An unexpected error occurred'')) of
        Inl e \<Rightarrow> (st1, Some e)
      | Inr msg \<Rightarrow> (st1\<lparr>error := msg\<rparr>, None))"

definition clearError :: "handler_state \<Rightarrow> handler_state" where
  "clearError st = st\<lparr>error := JNull\<rparr>"

section \<open>Mock API service (App.jsx)\<close>





section \<open>Header values on the wire\<close>

text \<open>
  The transport is not code of this repository; this is the one step of it that is
  modelled. A header value that is a string leaves the browser without its leading and
  trailing HTTP whitespace (tab, line feed, carriage return, space), which HTTP does
  not count as part of a field value: \<open>field_value s\<close> is what the backend reads
  for the value \<open>s\<close> the interceptor wrote.
\<close>

definition http_whitespace :: "char \<Rightarrow> bool" where
  "http_whitespace c = (c = CHR 0x09 \<or> c = CHR 0x0A \<or> c = CHR 0x0D \<or> c = CHR 0x20)"

definition field_value :: "string \<Rightarrow> string" where
  "field_value s = rev (dropWhile http_whitespace (rev (dropWhile http_whitespace s)))"

section \<open>Profile component (App.jsx)\<close>








section \<open>Evaluation lemmas\<close>

lemma truthy_not_nullish: "truthy v \<Longrightarrow> \<not> nullish v"
  by (cases v) simp_all

lemma request_interceptor_value:
  "request_interceptor st config =
     Inr (set_header ''x-user-id''
            (if truthy (opt_member (currentUser st) ''id'') then own (currentUser st) ''id''
             else JStr ''test-user-123'') config)"
  by (cases "nullish (currentUser st)")
     (simp_all add: request_interceptor_def opt_member_def member_def andThen_def)

lemma header_set_header: "header (set_header k v config) k = Some v"
  by (simp add: header_def set_header_def update_conv')

lemma apiClient_request_sent:
  "sent (apiClient_request m u d p st) =
     sent st @ [set_header ''x-user-id''
            (if truthy (opt_member (currentUser st) ''id'') then own (currentUser st) ''id''
             else JStr ''test-user-123'')
            \<lparr>meth = m, url = u, data = d, params = p, headers = default_headers\<rparr>]"
  by (simp add: apiClient_request_def request_interceptor_value)

text \<open>The transformers return exactly when \<open>response\<close> and \<open>response.data\<close> are
  neither \<open>null\<close> nor \<open>undefined\<close>; the first property read throws otherwise.\<close>

lemma transformTaskResponse_value:
  assumes "\<not> nullish response" and "\<not> nullish (own response ''data'')"
  shows "transformTaskResponse response =
     Inr (JObj [(''tasks'',
                 if truthy (own (own response ''data'') ''tasks'')
                 then own (own response ''data'') ''tasks''
                 else if truthy (own (own response ''data'') ''items'')
                      then own (own response ''data'') ''items''
                      else JArr [own response ''data'']),
                (''count'',
                 if truthy (own (own response ''data'') ''count'')
                 then own (own response ''data'') ''count''
                 else if truthy (own (own response ''data'') ''tasks'')
                      then own (own (own response ''data'') ''tasks'') ''length''
                      else JNum 1),
                (''message'', own (own response ''data'') ''message'')])"
  using assms
  by (simp add: transformTaskResponse_def or_else_def cond_def andThen_def data_field_def
      response_data_def member_def truthy_not_nullish)

lemma transformTaskResponse_throws:
  assumes "nullish response \<or> nullish (own response ''data'')"
  shows "transformTaskResponse response = Inl TypeError"
  using assms
  by (auto simp add: transformTaskResponse_def or_else_def cond_def andThen_def data_field_def
      response_data_def member_def)

lemma transformRatingResponse_value:
  assumes "\<not> nullish response" and "\<not> nullish (own response ''data'')"
  shows "transformRatingResponse response =
     Inr (JObj [(''ratings'',
                 if truthy (own (own response ''data'') ''ratings'')
                 then own (own response ''data'') ''ratings''
                 else JArr [own response ''data'']),
                (''statistics'',
                 if truthy (own (own response ''data'') ''statistics'')
                 then own (own response ''data'') ''statistics''
                 else default_statistics)])"
  using assms
  by (simp add: transformRatingResponse_def or_else_def andThen_def data_field_def
      response_data_def member_def)

lemma transformRatingResponse_throws:
  assumes "nullish response \<or> nullish (own response ''data'')"
  shows "transformRatingResponse response = Inl TypeError"
  using assms
  by (auto simp add: transformRatingResponse_def or_else_def andThen_def data_field_def
      response_data_def member_def)

text \<open>Every action of the auth binding writes the same value to both places.\<close>

lemma auth_step_in_step: "user (auth (auth_step w a)) = currentUser (client (auth_step w a))"
  by (cases a) (simp_all add: mount_effect_def login_def logout_def updateUser_def
      setCurrentUser_def Let_def)

lemma auth_run_in_step:
  "user (auth (auth_run acts initial_app)) = currentUser (client (auth_run acts initial_app))"
proof (induction acts rule: rev_induct)
  case Nil
  show ?case by (simp add: auth_run_def initial_app_def initial_api_def)
next
  case (snoc a acts)
  show ?case by (simp add: auth_run_def auth_step_in_step)
qed





text \<open>A string is empty on the wire exactly when all of it is whitespace.\<close>

lemma dropWhile_all_iff: "(\<forall>c\<in>set (dropWhile P s). P c) \<longleftrightarrow> (\<forall>c\<in>set s. P c)"
  by (induction s) auto

lemma field_value_empty_iff: "field_value s = [] \<longleftrightarrow> (\<forall>c\<in>set s. http_whitespace c)"
  by (simp add: field_value_def dropWhile_eq_Nil_conv dropWhile_all_iff)





section \<open>The identity header\<close>

text \<open>
  C1. Every request the client issues is handed to the transport with the header
  \<open>x-user-id\<close> taken from the identity store as it is at that moment: the id of the
  current user when that id is a non-empty string, and \<open>test-user-123\<close> when no user
  is set (\<open>null\<close> or \<open>undefined\<close>).
\<close>

theorem request_header_is_current_user_id:
  "(\<not> nullish (currentUser st) \<and> own (currentUser st) ''id'' = JStr s \<and> s \<noteq> [] \<longrightarrow>
      (\<exists>config. sent (apiClient_request m u d p st) = sent st @ [config]
         \<and> header config ''x-user-id'' = Some (JStr s)))
   \<and> (nullish (currentUser st) \<longrightarrow>
      (\<exists>config. sent (apiClient_request m u d p st) = sent st @ [config]
         \<and> header config ''x-user-id'' = Some (JStr ''test-user-123'')))"
  by (simp add: apiClient_request_sent header_set_header opt_member_def)

theorem request_header_is_current_user_id_witness:
  "(\<exists>config. sent (apiClient_request GET ''/users/me'' JUndefined JUndefined
        (setCurrentUser (JObj [(''id'', JStr ''user-456'')]) initial_api)) = [config]
         \<and> header config ''x-user-id'' = Some (JStr ''user-456''))
   \<and> (\<exists>config. sent (apiClient_request GET ''/users/me'' JUndefined JUndefined
        (setCurrentUser JNull initial_api)) = [config]
         \<and> header config ''x-user-id'' = Some (JStr ''test-user-123''))"
  using request_header_is_current_user_id
          [of "setCurrentUser (JObj [(''id'', JStr ''user-456'')]) initial_api" "''user-456''"
              GET "''/users/me''" JUndefined JUndefined]
        request_header_is_current_user_id
          [of "setCurrentUser JNull initial_api" "[]" GET "''/users/me''" JUndefined JUndefined]
  by (simp add: setCurrentUser_def initial_api_def)

text \<open>A current user whose id is a single space: the interceptor writes the space, since
  it is truthy, and the header goes out empty.\<close>

theorem whitespace_id_goes_out_empty:
  "length (sent (apiClient_request GET ''/users/me'' JUndefined JUndefined
       (setCurrentUser (JObj [(''id'', JStr '' '')]) initial_api))) = 1
   \<and> header (last (sent (apiClient_request GET ''/users/me'' JUndefined JUndefined
       (setCurrentUser (JObj [(''id'', JStr '' '')]) initial_api)))) ''x-user-id''
       = Some (JStr '' '')
   \<and> field_value '' '' = []"
  by (simp add: apiClient_request_sent header_set_header setCurrentUser_def initial_api_def
      opt_member_def field_value_def http_whitespace_def)

text \<open>
  C10, as amended. A current user whose id is the empty string, or who has no id, is
  treated as no user: the request carries \<open>test-user-123\<close>, and it is the request
  that would go out with the identity cleared. Whatever the identity store holds, the
  interceptor sets \<open>x-user-id\<close>, to a truthy value, so the header is never absent.
  When the id is a string, the header is empty on the wire exactly when the id is not
  empty and all of it is whitespace; the fallback goes out as it is.
\<close>

theorem user_id_header_on_the_wire:
  "(\<not> truthy (opt_member (currentUser st) ''id'') \<longrightarrow>
      (\<exists>config. sent (apiClient_request m u d p st) = sent st @ [config]
         \<and> header config ''x-user-id'' = Some (JStr ''test-user-123''))
      \<and> sent (apiClient_request m u d p st) =
          sent (apiClient_request m u d p (setCurrentUser JNull st)))
   \<and> (\<exists>config v. sent (apiClient_request m u d p st) = sent st @ [config]
         \<and> header config ''x-user-id'' = Some v \<and> truthy v)
   \<and> (\<not> nullish (currentUser st) \<and> own (currentUser st) ''id'' = JStr s \<longrightarrow>
      (\<exists>config w. sent (apiClient_request m u d p st) = sent st @ [config]
         \<and> header config ''x-user-id'' = Some (JStr w)
         \<and> (field_value w = [] \<longleftrightarrow> s \<noteq> [] \<and> (\<forall>c\<in>set s. http_whitespace c))))
   \<and> field_value ''test-user-123'' = ''test-user-123''"
proof -
  have fb: "field_value ''test-user-123'' = ''test-user-123''"
    by (simp add: field_value_def http_whitespace_def)
  have a: "\<not> truthy (opt_member (currentUser st) ''id'') \<longrightarrow>
      (\<exists>config. sent (apiClient_request m u d p st) = sent st @ [config]
         \<and> header config ''x-user-id'' = Some (JStr ''test-user-123''))
      \<and> sent (apiClient_request m u d p st) =
          sent (apiClient_request m u d p (setCurrentUser JNull st))"
    by (simp add: apiClient_request_sent header_set_header setCurrentUser_def opt_member_def)
  have b: "\<exists>config v. sent (apiClient_request m u d p st) = sent st @ [config]
         \<and> header config ''x-user-id'' = Some v \<and> truthy v"
    by (simp add: apiClient_request_sent header_set_header opt_member_def truthy_not_nullish)
  have c: "\<not> nullish (currentUser st) \<and> own (currentUser st) ''id'' = JStr s \<longrightarrow>
      (\<exists>config w. sent (apiClient_request m u d p st) = sent st @ [config]
         \<and> header config ''x-user-id'' = Some (JStr w)
         \<and> (field_value w = [] \<longleftrightarrow> s \<noteq> [] \<and> (\<forall>c\<in>set s. http_whitespace c)))"
  proof (cases "s = []")
    case True
    then show ?thesis
      by (simp add: apiClient_request_sent header_set_header opt_member_def fb)
  next
    case False
    then show ?thesis
      by (simp add: apiClient_request_sent header_set_header opt_member_def
          field_value_empty_iff)
  qed
  show ?thesis
    using a b c fb by (intro conjI)
qed

theorem user_id_header_on_the_wire_witness:
  "\<not> truthy (opt_member (currentUser (setCurrentUser (JObj [(''id'', JStr [])]) initial_api)) ''id'')
   \<and> (\<exists>config. sent (apiClient_request GET ''/users/me'' JUndefined JUndefined
        (setCurrentUser (JObj [(''id'', JStr [])]) initial_api)) = [config]
         \<and> header config ''x-user-id'' = Some (JStr ''test-user-123''))
   \<and> (\<exists>config w. sent (apiClient_request GET ''/users/me'' JUndefined JUndefined
        (setCurrentUser (JObj [(''id'', JStr ''user-456'')]) initial_api)) = [config]
         \<and> header config ''x-user-id'' = Some (JStr w) \<and> field_value w \<noteq> [])"
proof -
  let ?e = "setCurrentUser (JObj [(''id'', JStr [])]) initial_api"
  let ?u = "setCurrentUser (JObj [(''id'', JStr ''user-456'')]) initial_api"
  have h: "\<not> truthy (opt_member (currentUser ?e) ''id'')"
    by (simp add: setCurrentUser_def opt_member_def)
  have e: "sent ?e = []" "sent ?u = []"
    by (simp_all add: setCurrentUser_def initial_api_def)
  have "\<exists>config. sent (apiClient_request GET ''/users/me'' JUndefined JUndefined ?e)
            = sent ?e @ [config]
          \<and> header config ''x-user-id'' = Some (JStr ''test-user-123'')"
    using h user_id_header_on_the_wire [of ?e GET "''/users/me''" JUndefined JUndefined]
    by blast
  moreover have g: "\<not> nullish (currentUser ?u) \<and> own (currentUser ?u) ''id'' = JStr ''user-456''"
    by (simp add: setCurrentUser_def)
  have n: "\<not> (''user-456'' \<noteq> [] \<and> (\<forall>c\<in>set ''user-456''. http_whitespace c))"
    by (simp add: http_whitespace_def)
  have "\<exists>config w. sent (apiClient_request GET ''/users/me'' JUndefined JUndefined ?u)
            = sent ?u @ [config]
          \<and> header config ''x-user-id'' = Some (JStr w) \<and> field_value w \<noteq> []"
    using g n user_id_header_on_the_wire
        [of ?u GET "''/users/me''" JUndefined JUndefined "''user-456''"]
    by blast
  ultimately show ?thesis using h e by simp
qed

section \<open>The response transformers\<close>

text \<open>
  C2. For a payload that has \<open>items\<close> and neither \<open>tasks\<close> nor \<open>count\<close>, the task-list
  transform returns the items as \<open>tasks\<close> and the count \<open>1\<close>, however many items there
  are: the count is taken from the length of \<open>tasks\<close> only.
\<close>

theorem task_count_ignores_items:
  "transformTaskResponse (JObj [(''data'', JObj [(''items'', JArr ts)])]) =
     Inr (JObj [(''tasks'', JArr ts), (''count'', JNum 1), (''message'', JUndefined)])
   \<and> transformTaskResponse
        (JObj [(''data'', JObj [(''items'',
           JArr [JObj [(''task_id'', JStr ''1'')], JObj [(''task_id'', JStr ''2'')]])])]) =
     Inr (JObj [(''tasks'', JArr [JObj [(''task_id'', JStr ''1'')], JObj [(''task_id'', JStr ''2'')]]),
                (''count'', JNum 1), (''message'', JUndefined)])"
  by (simp add: transformTaskResponse_value)

text \<open>A response whose \<open>data\<close> is \<open>null\<close> or missing makes both transformers throw.\<close>

theorem transformers_throw_on_null_data:
  "transformTaskResponse (JObj [(''data'', JNull)]) = Inl TypeError
   \<and> transformRatingResponse (JObj [(''data'', JNull)]) = Inl TypeError
   \<and> transformTaskResponse (JObj []) = Inl TypeError
   \<and> transformRatingResponse (JObj []) = Inl TypeError"
  by (simp add: transformTaskResponse_throws transformRatingResponse_throws)

text \<open>
  C3, as amended. The transformers return a result exactly for the responses that are
  neither \<open>null\<close> nor \<open>undefined\<close> and whose \<open>data\<close> is neither; on such a response
  the missing fields take their defaults: without \<open>tasks\<close>, \<open>items\<close> and \<open>count\<close>
  the tasks are the payload alone and the count is \<open>1\<close>; without \<open>ratings\<close> and
  \<open>statistics\<close> the ratings are the payload alone and the statistics are zero.
\<close>

theorem transformers_return_iff_data:
  "((\<exists>out. transformTaskResponse response = Inr out)
      \<longleftrightarrow> \<not> nullish response \<and> \<not> nullish (own response ''data''))
   \<and> ((\<exists>out. transformRatingResponse response = Inr out)
      \<longleftrightarrow> \<not> nullish response \<and> \<not> nullish (own response ''data''))
   \<and> (\<not> nullish response \<and> \<not> nullish (own response ''data'')
        \<and> own (own response ''data'') ''tasks'' = JUndefined
        \<and> own (own response ''data'') ''items'' = JUndefined
        \<and> own (own response ''data'') ''count'' = JUndefined
      \<longrightarrow> transformTaskResponse response =
            Inr (JObj [(''tasks'', JArr [own response ''data'']), (''count'', JNum 1),
                       (''message'', own (own response ''data'') ''message'')]))
   \<and> (\<not> nullish response \<and> \<not> nullish (own response ''data'')
        \<and> own (own response ''data'') ''ratings'' = JUndefined
        \<and> own (own response ''data'') ''statistics'' = JUndefined
      \<longrightarrow> transformRatingResponse response =
            Inr (JObj [(''ratings'', JArr [own response ''data'']),
                       (''statistics'',
                        JObj [(''average_rating'', JNum 0), (''total_ratings'', JNum 0)])]))"
proof (cases "nullish response \<or> nullish (own response ''data'')")
  case True
  then show ?thesis
    using transformTaskResponse_throws [of response] transformRatingResponse_throws [of response]
    by auto
next
  case False
  then show ?thesis
    using transformTaskResponse_value [of response] transformRatingResponse_value [of response]
    by (simp add: default_statistics_def)
qed

theorem transformers_return_iff_data_witness:
  "\<not> nullish (JObj [(''data'', JObj [(''task_id'', JStr ''x'')])])
   \<and> \<not> nullish (own (JObj [(''data'', JObj [(''task_id'', JStr ''x'')])]) ''data'')
   \<and> transformTaskResponse (JObj [(''data'', JObj [(''task_id'', JStr ''x'')])]) =
       Inr (JObj [(''tasks'', JArr [JObj [(''task_id'', JStr ''x'')]]), (''count'', JNum 1),
                  (''message'', JUndefined)])
   \<and> transformRatingResponse (JObj [(''data'', JObj [(''task_id'', JStr ''x'')])]) =
       Inr (JObj [(''ratings'', JArr [JObj [(''task_id'', JStr ''x'')]]),
                  (''statistics'',
                   JObj [(''average_rating'', JNum 0), (''total_ratings'', JNum 0)])])"
  using transformers_return_iff_data [of "JObj [(''data'', JObj [(''task_id'', JStr ''x'')])]"]
  by simp

text \<open>
  C4. On a payload (a \<open>data\<close> that is neither \<open>null\<close> nor \<open>undefined\<close>) the
  rating-list transform returns as \<open>ratings\<close> the payload's \<open>ratings\<close> when the
  payload has one (any array, the empty one too, or other truthy value) and the payload
  alone in a sequence when it has none, and as \<open>statistics\<close> the payload's
  \<open>statistics\<close> when it has one and zero average and total when it has none. For the
  empty payload the result is the empty payload alone with the zero statistics.
\<close>

theorem rating_transform_fields:
  "(\<not> nullish response \<and> \<not> nullish (own response ''data'') \<longrightarrow>
     (\<exists>out. transformRatingResponse response = Inr out
        \<and> (truthy (own (own response ''data'') ''ratings'')
              \<longrightarrow> own out ''ratings'' = own (own response ''data'') ''ratings'')
        \<and> (\<not> truthy (own (own response ''data'') ''ratings'')
              \<longrightarrow> own out ''ratings'' = JArr [own response ''data''])
        \<and> (truthy (own (own response ''data'') ''statistics'')
              \<longrightarrow> own out ''statistics'' = own (own response ''data'') ''statistics'')
        \<and> (\<not> truthy (own (own response ''data'') ''statistics'')
              \<longrightarrow> own out ''statistics'' =
                   JObj [(''average_rating'', JNum 0), (''total_ratings'', JNum 0)])))
   \<and> transformRatingResponse (JObj [(''data'', JObj [])]) =
       Inr (JObj [(''ratings'', JArr [JObj []]),
                  (''statistics'',
                   JObj [(''average_rating'', JNum 0), (''total_ratings'', JNum 0)])])"
  by (simp add: transformRatingResponse_value default_statistics_def)

theorem rating_transform_fields_witness:
  "\<exists>out. transformRatingResponse
       (JObj [(''data'', JObj [(''ratings'', JArr [JObj [(''rating_id'', JStr ''1'')]]),
          (''statistics'', JObj [(''average_rating'', JNum 5), (''total_ratings'', JNum 1)])])])
       = Inr out
     \<and> own out ''ratings'' = JArr [JObj [(''rating_id'', JStr ''1'')]]
     \<and> own out ''statistics'' = JObj [(''average_rating'', JNum 5), (''total_ratings'', JNum 1)]"
  using rating_transform_fields
    [of "JObj [(''data'', JObj [(''ratings'', JArr [JObj [(''rating_id'', JStr ''1'')]]),
          (''statistics'', JObj [(''average_rating'', JNum 5), (''total_ratings'', JNum 1)])])]"]
  by simp

section \<open>The auth binding and the identity store\<close>

text \<open>
  C5. After \<open>login u\<close> the identity store returns \<open>u\<close>, after \<open>logout\<close> it returns
  \<open>null\<close>; after any action of the auth binding, and after any sequence of them from
  the initial state, the user of the binding and the user of the identity store are the
  same value.
\<close>

theorem login_logout_reach_identity_store:
  "getCurrentUser (client (login u w)) = u
   \<and> getCurrentUser (client (logout w)) = JNull
   \<and> user (auth (auth_step w a)) = getCurrentUser (client (auth_step w a))
   \<and> user (auth (auth_run acts initial_app)) = getCurrentUser (client (auth_run acts initial_app))"
  by (simp add: getCurrentUser_def auth_step_in_step auth_run_in_step login_def logout_def
      updateUser_def setCurrentUser_def)

theorem login_logout_reach_identity_store_witness:
  "getCurrentUser (client (login (JObj [(''id'', JStr ''user-456'')]) initial_app)) =
     JObj [(''id'', JStr ''user-456'')]
   \<and> getCurrentUser (client (logout (login (JObj [(''id'', JStr ''user-456'')]) initial_app))) =
     JNull"
  using login_logout_reach_identity_store
          [of "JObj [(''id'', JStr ''user-456'')]" initial_app Mount "[]"]
        login_logout_reach_identity_store
          [of JNull "login (JObj [(''id'', JStr ''user-456'')]) initial_app" Mount "[]"]
  by simp

section \<open>Errors\<close>

text \<open>
  C6. An error whose response has status 401 leaves the response interceptor as the
  same rejection; the current user and the requests sent are unchanged (nothing is
  retried), and one line is logged.
\<close>

theorem unauthorized_is_rejected_unchanged:
  assumes "\<not> nullish err" and "opt_member (own err ''response'') ''status'' = JNum 401"
  shows "snd (response_interceptor (Rejected err) st) = Rejected err
         \<and> getCurrentUser (fst (response_interceptor (Rejected err) st)) = getCurrentUser st
         \<and> sent (fst (response_interceptor (Rejected err) st)) = sent st
         \<and> console (fst (response_interceptor (Rejected err) st)) =
             console st @ [[JStr ''Unauthorized access'']]"
  using assms by (simp add: response_rejected_def member_def getCurrentUser_def)

theorem unauthorized_is_rejected_unchanged_witness:
  "opt_member (own (JObj [(''response'', JObj [(''status'', JNum 401)])]) ''response'') ''status''
     = JNum 401
   \<and> snd (response_interceptor
          (Rejected (JObj [(''response'', JObj [(''status'', JNum 401)])]))
          (setCurrentUser testUser initial_api)) =
     Rejected (JObj [(''response'', JObj [(''status'', JNum 401)])])
   \<and> getCurrentUser (fst (response_interceptor
          (Rejected (JObj [(''response'', JObj [(''status'', JNum 401)])]))
          (setCurrentUser testUser initial_api))) = testUser
   \<and> sent (fst (response_interceptor
          (Rejected (JObj [(''response'', JObj [(''status'', JNum 401)])]))
          (setCurrentUser testUser initial_api))) = []"
  using unauthorized_is_rejected_unchanged
          [of "JObj [(''response'', JObj [(''status'', JNum 401)])]"
              "setCurrentUser testUser initial_api"]
  by (simp add: opt_member_def getCurrentUser_def setCurrentUser_def initial_api_def)

text \<open>
  C8. For an error object, the message \<open>handleError\<close> stores is the value at
  \<open>response.data.detail\<close> when there is one (a non-empty string, or another truthy
  value), and \<open>An unexpected error occurred\<close> when there is none: no \<open>detail\<close>, no
  \<open>data\<close>, or no \<open>response\<close> at all; an empty \<open>detail\<close> counts as none.
\<close>

theorem handleError_message:
  assumes "\<not> nullish err"
  shows "(truthy (opt_member (opt_member (own err ''response'') ''data'') ''detail'') \<longrightarrow>
            error (fst (handleError err st)) =
              opt_member (opt_member (own err ''response'') ''data'') ''detail'')
         \<and> (\<not> truthy (opt_member (opt_member (own err ''response'') ''data'') ''detail'') \<longrightarrow>
            error (fst (handleError err st)) = JStr ''An unexpected error occurred'')
         \<and> (nullish (own err ''response'') \<longrightarrow>
            error (fst (handleError err st)) = JStr ''An unexpected error occurred'')
         \<and> snd (handleError err st) = None"
  using assms
  by (simp add: handleError_def or_else_def andThen_def member_def opt_member_def Let_def)

theorem handleError_message_witness:
  "error (fst (handleError
       (JObj [(''response'', JObj [(''status'', JNum 404),
                (''data'', JObj [(''detail'', JStr ''Task not found'')])])])
       \<lparr>error = JNull, handler_console = []\<rparr>)) = JStr ''Task not found''
   \<and> error (fst (handleError (JObj [(''message'', JStr ''Network Error'')])
       \<lparr>error = JNull, handler_console = []\<rparr>)) = JStr ''An unexpected error occurred''"
  using handleError_message
          [of "JObj [(''response'', JObj [(''status'', JNum 404),
                (''data'', JObj [(''detail'', JStr ''Task not found'')])])]"
              "\<lparr>error = JNull, handler_console = []\<rparr>"]
        handleError_message
          [of "JObj [(''message'', JStr ''Network Error'')]"
              "\<lparr>error = JNull, handler_console = []\<rparr>"]
  by (simp add: opt_member_def)

section \<open>Resource access\<close>

text \<open>
  C7. \<open>acceptTask t\<close> hands exactly one request to the transport: a POST to
  \<open>/tasks/t/accept\<close> whose body is \<open>undefined\<close>.
\<close>

theorem acceptTask_one_post_no_body:
  "\<exists>config. sent (acceptTask t st) = sent st @ [config]
      \<and> meth config = POST
      \<and> url config = ''/tasks/'' @ t @ ''/accept''
      \<and> data config = JUndefined"
  by (simp add: acceptTask_def apiClient_request_sent set_header_def)

theorem acceptTask_one_post_no_body_witness:
  "\<exists>config. sent (acceptTask ''T1'' initial_api) = [config]
      \<and> meth config = POST
      \<and> url config = ''/tasks/T1/accept''
      \<and> data config = JUndefined"
  using acceptTask_one_post_no_body [of "''T1''" initial_api]
  by (simp add: initial_api_def)

section \<open>Profile update\<close>



end
